theory Spec2Isabelle
  imports Main "HOL-Library.Word"
begin

section \<open>Text conversions used by the map writer\<close>

text \<open>
  \<^verbatim>\<open>perfmap.cpp\<close> builds every line with \<^verbatim>\<open>SString::Printf\<close>. The conversions it uses
  are \<^verbatim>\<open>%x\<close> and \<^verbatim>\<open>%08x\<close> (an \<^verbatim>\<open>unsigned int\<close>, 32 bits, in lower-case hexadecimal),
  \<^verbatim>\<open>%d\<close> (an \<^verbatim>\<open>int\<close>, 32 bits, in signed decimal), \<^verbatim>\<open>%s\<close>/\<^verbatim>\<open>%S\<close> (a string) and
  \<^verbatim>\<open>%p\<close> (a pointer, rendered by the platform layer). Addresses and sizes are
  pointer-sized in the source (\<^verbatim>\<open>PCODE\<close>, \<^verbatim>\<open>size_t\<close>, \<^verbatim>\<open>SIZE_T\<close>); they are 64-bit
  words here, and a 32-bit conversion reads the low 32 bits of its argument.
\<close>

type_synonym PCODE = "64 word"
type_synonym SIZE_T = "64 word"
type_synonym GUID = "128 word"

definition hex_digit :: "nat \<Rightarrow> char" where
  "hex_digit d = ''0123456789abcdef'' ! d"

function hex_of_nat :: "nat \<Rightarrow> string" where
  "hex_of_nat n =
     (if n < 16 then [hex_digit n] else hex_of_nat (n div 16) @ [hex_digit (n mod 16)])"
  by pat_completeness auto
termination
  by (relation "measure id") auto

declare hex_of_nat.simps [simp del]

function dec_of_nat :: "nat \<Rightarrow> string" where
  "dec_of_nat n =
     (if n < 10 then [hex_digit n] else dec_of_nat (n div 10) @ [hex_digit (n mod 10)])"
  by pat_completeness auto
termination
  by (relation "measure id") auto

declare dec_of_nat.simps [simp del]

text \<open>\<^verbatim>\<open>%x\<close>: the argument is read as a 32-bit unsigned integer.\<close>

definition fmt_x :: "32 word \<Rightarrow> string" where
  "fmt_x w = hex_of_nat (unat w)"

text \<open>\<^verbatim>\<open>%08x\<close>: as \<^verbatim>\<open>%x\<close>, padded on the left with zeros to eight characters.\<close>

definition fmt_08x :: "32 word \<Rightarrow> string" where
  "fmt_08x w = replicate (8 - length (fmt_x w)) (CHR ''0'') @ fmt_x w"

text \<open>\<^verbatim>\<open>%d\<close>: the argument is read as a 32-bit signed integer.\<close>

definition fmt_d :: "32 word \<Rightarrow> string" where
  "fmt_d w =
     (if sint w < 0 then CHR ''-'' # dec_of_nat (nat (- sint w)) else dec_of_nat (nat (sint w)))"

definition newline :: char where
  "newline = CHR 0x0A"

section \<open>The host: build flags, configuration and platform services\<close>

text \<open>
  Everything \<^verbatim>\<open>perfmap.cpp\<close> takes from outside the file. The two preprocessor symbols
  select the address format and the legacy iteration path. The configuration values are
  those read through \<^verbatim>\<open>CLRConfig\<close>. The platform services are parameters, their code
  is not part of the file: \<^verbatim>\<open>GetTempPathW\<close> (\<open>None\<close> when it returns 0),
  \<^verbatim>\<open>new (nothrow) CFileStream()\<close> (\<open>False\<close> when the allocation fails),
  \<^verbatim>\<open>CFileStream::OpenForWrite\<close> (\<open>None\<close> when the result is a failure code; otherwise
  the number of bytes the device will take on each of the coming writes),
  \<^verbatim>\<open>StringFromGUID2\<close> (\<open>None\<close> when it returns 0), what the platform's \<^verbatim>\<open>%p\<close> prints
  for a pointer and what its \<^verbatim>\<open>%s\<close> prints for a null pointer.
\<close>

record MethodRegionInfo =
  hotStartAddress :: PCODE
  hotSize :: SIZE_T
  coldStartAddress :: PCODE
  coldSize :: SIZE_T

record host =
  CROSSGEN_COMPILE :: bool
  FEATURE_PREJIT :: bool
  PerfMapEnabled :: bool
  PerfMapIgnoreSignal :: int
  PerfMapShowOptimizationTiers :: nat
  GetCurrentProcessId :: "32 word"
  GetTempPathW :: "string option"
  new_CFileStream :: bool
  OpenForWrite :: "string \<Rightarrow> nat list option"
  StringFromGUID2 :: "GUID \<Rightarrow> string option"
  GetMethodRegionInfo :: "PCODE \<Rightarrow> MethodRegionInfo"
  fmt_p :: "PCODE \<Rightarrow> string"
  fmt_s_null :: string

text \<open>
  \<^verbatim>\<open>FMT_CODE_ADDR\<close>: \<^verbatim>\<open>"%08x"\<close> under \<^verbatim>\<open>CROSSGEN_COMPILE\<close>, \<^verbatim>\<open>"%p"\<close> otherwise.
\<close>

definition FMT_CODE_ADDR :: "host \<Rightarrow> PCODE \<Rightarrow> string" where
  "FMT_CODE_ADDR h pCode = (if CROSSGEN_COMPILE h then fmt_08x (ucast pCode) else fmt_p h pCode)"

text \<open>\<^verbatim>\<open>%s\<close> applied to a \<^verbatim>\<open>const char *\<close> that may be null.\<close>

definition fmt_s :: "host \<Rightarrow> string option \<Rightarrow> string" where
  "fmt_s h s = (case s of None \<Rightarrow> fmt_s_null h | Some t \<Rightarrow> t)"

section \<open>Collaborators\<close>

text \<open>
  The values the map reads from the objects handed to it: the full signature of a method
  (\<open>None\<close> when \<^verbatim>\<open>GetFullMethodInfo\<close> throws), the tier string of a code configuration
  (null or a string), the MVID of an image, the simple name and manifest file of an
  assembly, and of a module its load base, whether its image has a ReadyToRun header, and
  the sequences its two method iterators yield.
\<close>

datatype MethodDesc = MethodDesc (GetFullMethodInfo: "string option")

datatype PrepareCodeConfig = PrepareCodeConfig (GetJitOptimizationTierStr: "string option")

datatype PEFile = PEFile (GetMVID: GUID)

datatype Assembly = Assembly (GetSimpleName: string) (GetManifestFile: PEFile)

record Module =
  GetBase :: SIZE_T
  HasReadyToRunHeader :: bool
  MethodIterator :: "(MethodDesc \<times> PCODE) list"
  ReadyToRunInfo_MethodIterator :: "(MethodDesc \<times> PCODE) list"

section \<open>The file stream and the image recorder\<close>

record CFileStream =
  fs_path :: string
  fs_contents :: string
  fs_accepts :: "nat list"

text \<open>
  Modelled from the spec: \<^verbatim>\<open>CFileStream::Write\<close> is not part of the file. The writer
  "attempts to append the full byte length of text" and may see "fewer bytes than
  requested" written. The stream appends as many bytes of the request as the device takes
  on this call (the head of \<open>fs_accepts\<close>; everything once the list is used up) and
  reports that count.
\<close>

definition CFileStream_Write :: "CFileStream \<Rightarrow> string \<Rightarrow> CFileStream \<times> nat" where
  "CFileStream_Write fs bytes =
     (case fs_accepts fs of
        [] \<Rightarrow> (fs\<lparr>fs_contents := fs_contents fs @ bytes\<rparr>, length bytes)
      | a # rest \<Rightarrow>
          (fs\<lparr>fs_contents := fs_contents fs @ take a bytes, fs_accepts := rest\<rparr>,
           min a (length bytes)))"

record PerfInfo =
  pi_pid :: "32 word"
  pi_images :: "(PEFile \<times> string) list"

text \<open>
  Modelled from the spec: \<^verbatim>\<open>PerfInfo\<close> (perfinfo.cpp) is not part of the file. It is the
  "secondary, cooperating writer that records one entry per loaded module, keyed by a
  derived stable identifier".
\<close>

definition PerfInfo_new :: "32 word \<Rightarrow> PerfInfo" where
  "PerfInfo_new pid = \<lparr>pi_pid = pid, pi_images = []\<rparr>"

definition PerfInfo_LogImage :: "PerfInfo \<Rightarrow> PEFile \<Rightarrow> string \<Rightarrow> PerfInfo" where
  "PerfInfo_LogImage pi pFile sig = pi\<lparr>pi_images := pi_images pi @ [(pFile, sig)]\<rparr>"

section \<open>PerfMap\<close>

text \<open>
  The members of the class and its two static members. The class is declared in
  \<^verbatim>\<open>perfmap.h\<close>; the stub counter is an unsigned integer that \<^verbatim>\<open>LogStubs\<close> hands to
  the 32-bit conversion \<^verbatim>\<open>%d\<close>, a 32-bit word here.
\<close>

record PerfMap =
  m_FileStream :: "CFileStream option"
  m_PerfInfo :: "PerfInfo option"
  m_ErrorEncountered :: bool
  m_StubsMapped :: "32 word"

record statics =
  s_Current :: "PerfMap option"
  s_ShowOptimizationTiers :: bool

text \<open>The initial values of the two static members.\<close>

definition statics_init :: statics where
  "statics_init = \<lparr>s_Current = None, s_ShowOptimizationTiers = False\<rparr>"

text \<open>\<^verbatim>\<open>PerfMap::OpenFile\<close>\<close>

definition OpenFile :: "host \<Rightarrow> PerfMap \<Rightarrow> string \<Rightarrow> PerfMap" where
  "OpenFile h this path =
     (if new_CFileStream h then
        (case OpenForWrite h path of
           None \<Rightarrow> this\<lparr>m_FileStream := None\<rparr>
         | Some acc \<Rightarrow>
             this\<lparr>m_FileStream :=
               Some \<lparr>fs_path = path, fs_contents = [], fs_accepts = acc\<rparr>\<rparr>)
      else this\<lparr>m_FileStream := None\<rparr>)"

text \<open>
  \<^verbatim>\<open>PerfMap::PerfMap(int pid)\<close>. This constructor has no member initialiser list: it
  assigns \<open>m_ErrorEncountered\<close> and \<open>m_StubsMapped\<close>, and the other two members only
  after the temporary path has been found. \<open>raw\<close> is the object's storage as the
  allocator hands it over; a member the constructor does not assign keeps what it holds.
\<close>

definition PerfMap_pid :: "host \<Rightarrow> PerfMap \<Rightarrow> 32 word \<Rightarrow> PerfMap" where
  "PerfMap_pid h raw pid =
     (let this = raw\<lparr>m_ErrorEncountered := False, m_StubsMapped := 0\<rparr> in
      case GetTempPathW h of
        None \<Rightarrow> this
      | Some tempPath \<Rightarrow>
          (let path = tempPath @ ''perf-'' @ fmt_d pid @ ''.map'';
               this = OpenFile h this path
           in this\<lparr>m_PerfInfo := Some (PerfInfo_new pid)\<rparr>))"

text \<open>\<^verbatim>\<open>PerfMap::PerfMap()\<close>, the constructor used for offline maps.\<close>

definition PerfMap_default :: PerfMap where
  "PerfMap_default =
     \<lparr>m_FileStream = None, m_PerfInfo = None, m_ErrorEncountered = False, m_StubsMapped = 0\<rparr>"

text \<open>\<^verbatim>\<open>PerfMap::~PerfMap\<close>\<close>

definition PerfMap_dtor :: "PerfMap \<Rightarrow> PerfMap" where
  "PerfMap_dtor this = this\<lparr>m_FileStream := None, m_PerfInfo := None\<rparr>"

text \<open>
  \<^verbatim>\<open>PerfMap::Initialize\<close>. \<^verbatim>\<open>PAL_IgnoreProfileSignal\<close> changes nothing this file reads.
\<close>

definition Initialize :: "host \<Rightarrow> PerfMap \<Rightarrow> statics \<Rightarrow> statics" where
  "Initialize h raw g =
     (if PerfMapEnabled h then
        (let g1 = g\<lparr>s_Current := Some (PerfMap_pid h raw (GetCurrentProcessId h))\<rparr> in
         if PerfMapShowOptimizationTiers h \<noteq> 0 then g1\<lparr>s_ShowOptimizationTiers := True\<rparr>
         else g1)
      else g)"

text \<open>\<^verbatim>\<open>PerfMap::Destroy\<close>: the object is destructed and freed, the pointer reset.\<close>

definition Destroy :: "statics \<Rightarrow> statics" where
  "Destroy g = (case s_Current g of None \<Rightarrow> g | Some cur \<Rightarrow> g\<lparr>s_Current := None\<rparr>)"

text \<open>
  \<^verbatim>\<open>PerfMap::WriteLine\<close>. It dereferences \<open>m_FileStream\<close> without a test; each of its
  callers returns before the call when the pointer is null.
\<close>

definition WriteLine :: "PerfMap \<Rightarrow> string \<Rightarrow> PerfMap" where
  "WriteLine this line =
     (case m_FileStream this of
        None \<Rightarrow> this
      | Some fs \<Rightarrow>
          (let inCount = length line;
               (fs', outCount) = CFileStream_Write fs line;
               this = this\<lparr>m_FileStream := Some fs'\<rparr>
           in if inCount \<noteq> outCount then this\<lparr>m_ErrorEncountered := True\<rparr> else this))"

text \<open>
  \<^verbatim>\<open>PerfMap::LogMethod\<close>. An exception of \<^verbatim>\<open>GetFullMethodInfo\<close> is caught and dropped.
\<close>

definition LogMethod ::
  "host \<Rightarrow> statics \<Rightarrow> PerfMap \<Rightarrow> MethodDesc \<Rightarrow> PCODE \<Rightarrow> SIZE_T \<Rightarrow> string option \<Rightarrow> PerfMap" where
  "LogMethod h g this pMethod pCode codeSize optimizationTier =
     (if m_FileStream this = None \<or> m_ErrorEncountered this then this
      else
        (case GetFullMethodInfo pMethod of
           None \<Rightarrow> this
         | Some fullMethodSignature \<Rightarrow>
             (let line = FMT_CODE_ADDR h pCode @ '' '' @ fmt_x (ucast codeSize) @ '' ''
                           @ fullMethodSignature;
                  line = (case optimizationTier of
                            Some tier \<Rightarrow>
                              if s_ShowOptimizationTiers g
                              then line @ ''['' @ tier @ '']'' @ [newline]
                              else line @ [newline]
                          | None \<Rightarrow> line @ [newline])
              in WriteLine this line)))"

text \<open>\<^verbatim>\<open>PerfMap::GetNativeImageSignature\<close>\<close>

definition GetNativeImageSignature :: "host \<Rightarrow> PEFile \<Rightarrow> string" where
  "GetNativeImageSignature h pFile =
     (case StringFromGUID2 h (GetMVID pFile) of None \<Rightarrow> [] | Some s \<Rightarrow> s)"

text \<open>
  \<^verbatim>\<open>PerfMap::LogImage\<close>. It is reached through \<^verbatim>\<open>LogImageLoad\<close> only, on the
  singleton, whose constructor sets \<open>m_PerfInfo\<close> whenever it opens the file.
\<close>

definition LogImage :: "host \<Rightarrow> PerfMap \<Rightarrow> PEFile \<Rightarrow> PerfMap" where
  "LogImage h this pFile =
     (if m_FileStream this = None \<or> m_ErrorEncountered this then this
      else
        (let wszSignature = GetNativeImageSignature h pFile in
         case m_PerfInfo this of
           None \<Rightarrow> this
         | Some pi \<Rightarrow> this\<lparr>m_PerfInfo := Some (PerfInfo_LogImage pi pFile wszSignature)\<rparr>))"

text \<open>\<^verbatim>\<open>PerfMap::LogImageLoad\<close>\<close>

definition LogImageLoad :: "host \<Rightarrow> statics \<Rightarrow> PEFile \<Rightarrow> statics" where
  "LogImageLoad h g pFile =
     (case s_Current g of
        None \<Rightarrow> g
      | Some cur \<Rightarrow> g\<lparr>s_Current := Some (LogImage h cur pFile)\<rparr>)"

text \<open>\<^verbatim>\<open>PerfMap::LogJITCompiledMethod\<close>\<close>

definition LogJITCompiledMethod ::
  "host \<Rightarrow> statics \<Rightarrow> MethodDesc \<Rightarrow> PCODE \<Rightarrow> SIZE_T \<Rightarrow> PrepareCodeConfig \<Rightarrow> statics" where
  "LogJITCompiledMethod h g pMethod pCode codeSize pConfig =
     (case s_Current g of
        None \<Rightarrow> g
      | Some cur \<Rightarrow>
          (let optimizationTier =
                 (if CROSSGEN_COMPILE h then None
                  else if s_ShowOptimizationTiers g then GetJitOptimizationTierStr pConfig
                  else None)
           in g\<lparr>s_Current := Some (LogMethod h g cur pMethod pCode codeSize optimizationTier)\<rparr>))"

text \<open>
  \<^verbatim>\<open>PerfMap::LogStubs\<close>. Both null tests assign \<open>stubOwner\<close>, as the source does.
\<close>

definition LogStubs ::
  "host \<Rightarrow> statics \<Rightarrow> string option \<Rightarrow> string option \<Rightarrow> PCODE \<Rightarrow> SIZE_T \<Rightarrow> statics" where
  "LogStubs h g stubType stubOwner pCode codeSize =
     (case s_Current g of
        None \<Rightarrow> g
      | Some cur \<Rightarrow>
          (case m_FileStream cur of
             None \<Rightarrow> g
           | Some fs \<Rightarrow>
               (let stubOwner = (if stubOwner = None then Some ''?'' else stubOwner);
                    stubOwner = (if stubType = None then Some ''?'' else stubOwner);
                    cur = cur\<lparr>m_StubsMapped := m_StubsMapped cur + 1\<rparr>;
                    line = FMT_CODE_ADDR h pCode @ '' '' @ fmt_x (ucast codeSize) @ '' stub<''
                             @ fmt_d (m_StubsMapped cur) @ ''> '' @ fmt_s h stubType @ ''<''
                             @ fmt_s h stubOwner @ ''>'' @ [newline]
                in g\<lparr>s_Current := Some (WriteLine cur line)\<rparr>)))"

section \<open>NativeImagePerfMap\<close>

text \<open>\<^verbatim>\<open>NativeImagePerfMap::NativeImagePerfMap\<close>\<close>

definition NativeImagePerfMap :: "host \<Rightarrow> Assembly \<Rightarrow> string \<Rightarrow> PerfMap" where
  "NativeImagePerfMap h pAssembly pDestPath =
     (let lpcSimpleName = GetSimpleName pAssembly;
          wszSignature = GetNativeImageSignature h (GetManifestFile pAssembly);
          sDestPerfMapPath = pDestPath @ lpcSimpleName @ ''.ni.'' @ wszSignature @ ''.map''
      in OpenFile h PerfMap_default sDestPerfMapPath)"

text \<open>\<^verbatim>\<open>NativeImagePerfMap::LogPreCompiledMethod\<close>\<close>

definition LogPreCompiledMethod ::
  "host \<Rightarrow> statics \<Rightarrow> PerfMap \<Rightarrow> MethodDesc \<Rightarrow> PCODE \<Rightarrow> SIZE_T \<Rightarrow> string option \<Rightarrow> PerfMap" where
  "LogPreCompiledMethod h g this pMethod pCode baseAddr optimizationTier =
     (let methodRegionInfo = GetMethodRegionInfo h pCode;
          this = (if hotSize methodRegionInfo > 0
                  then LogMethod h g this pMethod (hotStartAddress methodRegionInfo - baseAddr)
                         (hotSize methodRegionInfo) optimizationTier
                  else this);
          this = (if coldSize methodRegionInfo > 0
                  then LogMethod h g this pMethod (coldStartAddress methodRegionInfo - baseAddr)
                         (coldSize methodRegionInfo) optimizationTier
                  else this)
      in this)"

text \<open>
  The two \<^verbatim>\<open>while (mi.Next())\<close> loops of \<^verbatim>\<open>LogDataForModule\<close>: one call of
  \<^verbatim>\<open>LogPreCompiledMethod\<close> for each method the iterator yields, in its order. The
  legacy loop also calls \<^verbatim>\<open>CheckRestore\<close> on the method, which changes nothing the map
  reads.
\<close>

fun LogDataForModule_loop ::
  "host \<Rightarrow> statics \<Rightarrow> SIZE_T \<Rightarrow> string option \<Rightarrow> (MethodDesc \<times> PCODE) list \<Rightarrow> PerfMap \<Rightarrow> PerfMap" where
  "LogDataForModule_loop h g baseAddr tier [] this = this"
| "LogDataForModule_loop h g baseAddr tier ((hotDesc, addr) # mi) this =
     LogDataForModule_loop h g baseAddr tier mi
       (LogPreCompiledMethod h g this hotDesc addr baseAddr tier)"

text \<open>\<^verbatim>\<open>NativeImagePerfMap::LogDataForModule\<close>\<close>

definition LogDataForModule :: "host \<Rightarrow> statics \<Rightarrow> PerfMap \<Rightarrow> Module \<Rightarrow> PerfMap" where
  "LogDataForModule h g this pModule =
     (let baseAddr = GetBase pModule in
      if FEATURE_PREJIT h \<and> \<not> HasReadyToRunHeader pModule
      then LogDataForModule_loop h g baseAddr None (MethodIterator pModule) this
      else LogDataForModule_loop h g baseAddr (Some ''ReadyToRun'')
             (ReadyToRunInfo_MethodIterator pModule) this)"

section \<open>Records as the specification words them\<close>

text \<open>
  The line formatter of the specification: address, size in hexadecimal, label, the tier
  tag in brackets when there is one, and the line terminator.
\<close>

definition map_record :: "host \<Rightarrow> PCODE \<Rightarrow> SIZE_T \<Rightarrow> string \<Rightarrow> string option \<Rightarrow> string" where
  "map_record h address sz label tier_tag =
     FMT_CODE_ADDR h address @ '' '' @ fmt_x (ucast sz) @ '' '' @ label
       @ (case tier_tag of None \<Rightarrow> [] | Some t \<Rightarrow> ''['' @ t @ '']'') @ [newline]"

text \<open>
  The non-empty regions of the method whose code starts at \<open>pCode\<close>, hot before cold, each
  with its start address and size.
\<close>

definition method_regions :: "host \<Rightarrow> PCODE \<Rightarrow> (PCODE \<times> SIZE_T) list" where
  "method_regions h pCode =
     (let r = GetMethodRegionInfo h pCode in
      (if hotSize r > 0 then [(hotStartAddress r, hotSize r)] else [])
      @ (if coldSize r > 0 then [(coldStartAddress r, coldSize r)] else []))"

text \<open>
  The records of one method of an offline map: one per non-empty region, its address the
  region's start minus the load base. A method whose signature does not resolve has none
  (its log calls are abandoned).
\<close>

definition method_records ::
  "host \<Rightarrow> SIZE_T \<Rightarrow> string option \<Rightarrow> MethodDesc \<times> PCODE \<Rightarrow> string list" where
  "method_records h base tier_tag m =
     (case GetFullMethodInfo (fst m) of
        None \<Rightarrow> []
      | Some label \<Rightarrow>
          map (\<lambda>(start, sz). map_record h (start - base) sz label tier_tag)
            (method_regions h (snd m)))"

text \<open>The tier string that reaches the line: none unless tier display is on.\<close>

definition shown_tier :: "statics \<Rightarrow> string option \<Rightarrow> string option" where
  "shown_tier g tier = (if s_ShowOptimizationTiers g then tier else None)"

text \<open>A run of \<^verbatim>\<open>LogStubs\<close> calls, in order.\<close>

definition LogStubs_calls ::
  "host \<Rightarrow> (string option \<times> string option \<times> PCODE \<times> SIZE_T) list \<Rightarrow> statics \<Rightarrow> statics" where
  "LogStubs_calls h calls g =
     fold (\<lambda>(stubType, stubOwner, pCode, codeSize) g.
             LogStubs h g stubType stubOwner pCode codeSize) calls g"

text \<open>
  For the proofs: a map whose stream is open, takes every write in full and has no error
  latched; and a map with text appended to its stream.
\<close>

definition writable :: "PerfMap \<Rightarrow> bool" where
  "writable this =
     (case m_FileStream this of
        None \<Rightarrow> False
      | Some fs \<Rightarrow> fs_accepts fs = [] \<and> \<not> m_ErrorEncountered this)"

definition appended :: "PerfMap \<Rightarrow> string \<Rightarrow> PerfMap" where
  "appended this text =
     (case m_FileStream this of
        None \<Rightarrow> this
      | Some fs \<Rightarrow> this\<lparr>m_FileStream := Some (fs\<lparr>fs_contents := fs_contents fs @ text\<rparr>)\<rparr>)"

section \<open>Sample hosts and inputs\<close>

text \<open>
  Concrete hosts for evaluating the definitions: a live process with tier display
  configured, an offline (crossgen) build, a live process whose first write comes up
  short, and one without a temporary path. The sample \<^verbatim>\<open>%p\<close> prints the pointer in
  hexadecimal without padding.
\<close>

definition sample_regions :: "PCODE \<Rightarrow> MethodRegionInfo" where
  "sample_regions pCode =
     (if pCode = 0x401000
      then \<lparr>hotStartAddress = 0x401000, hotSize = 0x20,
            coldStartAddress = 0x402000, coldSize = 0x8\<rparr>
      else if pCode = 0x401100
      then \<lparr>hotStartAddress = 0x401100, hotSize = 0x30, coldStartAddress = 0, coldSize = 0\<rparr>
      else \<lparr>hotStartAddress = pCode, hotSize = 0, coldStartAddress = 0, coldSize = 0\<rparr>)"

definition host_live :: host where
  "host_live =
     \<lparr>CROSSGEN_COMPILE = False, FEATURE_PREJIT = True, PerfMapEnabled = True,
      PerfMapIgnoreSignal = 0, PerfMapShowOptimizationTiers = 1, GetCurrentProcessId = 42,
      GetTempPathW = Some ''/tmp/'', new_CFileStream = True, OpenForWrite = (\<lambda>p. Some []),
      StringFromGUID2 = (\<lambda>g. if g = 0 then None else Some (''{'' @ hex_of_nat (unat g) @ ''}'')),
      GetMethodRegionInfo = sample_regions,
      fmt_p = (\<lambda>p. hex_of_nat (unat p)), fmt_s_null = ''(null)''\<rparr>"

definition host_offline :: host where
  "host_offline = host_live\<lparr>CROSSGEN_COMPILE := True, PerfMapEnabled := False\<rparr>"

definition live_statics :: statics where
  "live_statics = Initialize host_live PerfMap_default statics_init"

definition live_map :: PerfMap where
  "live_map = PerfMap_pid host_live PerfMap_default 42"

definition sample_method :: MethodDesc where
  "sample_method = MethodDesc (Some ''M.F()'')"

definition sample_assembly :: Assembly where
  "sample_assembly = Assembly ''mscorlib'' (PEFile 0x1234)"

definition host_short :: host where
  "host_short = host_live\<lparr>OpenForWrite := (\<lambda>p. Some [5])\<rparr>"

definition host_no_temp :: host where
  "host_no_temp = host_live\<lparr>GetTempPathW := None\<rparr>"

definition stale_storage :: PerfMap where
  "stale_storage =
     \<lparr>m_FileStream = Some \<lparr>fs_path = ''stale'', fs_contents = [], fs_accepts = []\<rparr>,
      m_PerfInfo = None, m_ErrorEncountered = True, m_StubsMapped = 7\<rparr>"

definition offline_map :: PerfMap where
  "offline_map = NativeImagePerfMap host_offline sample_assembly ''/out/''"

definition tiers_on :: statics where
  "tiers_on = statics_init\<lparr>s_ShowOptimizationTiers := True\<rparr>"

definition ngen_module :: Module where
  "ngen_module =
     \<lparr>GetBase = 0x400000, HasReadyToRunHeader = False,
      MethodIterator =
        [(MethodDesc (Some ''M.F()''), 0x401000), (MethodDesc (Some ''M.G()''), 0x401100),
         (MethodDesc (Some ''M.H()''), 0x401200)],
      ReadyToRunInfo_MethodIterator = []\<rparr>"

definition r2r_module :: Module where
  "r2r_module =
     \<lparr>GetBase = 0x400000, HasReadyToRunHeader = True, MethodIterator = [],
      ReadyToRunInfo_MethodIterator =
        [(MethodDesc (Some ''M.F()''), 0x401000), (MethodDesc (Some ''M.G()''), 0x401100)]\<rparr>"

definition delegate_stub :: "string option \<times> string option \<times> PCODE \<times> SIZE_T" where
  "delegate_stub = (Some ''DelegateStub'', Some ''MyClass'', 0x1000, 0x20)"

text \<open>
  A live map whose device took five bytes of the first line: one method has been logged
  on a host whose first write is short.
\<close>

definition after_short_write :: statics where
  "after_short_write =
     LogJITCompiledMethod host_short (Initialize host_short PerfMap_default statics_init)
       sample_method 0x1000 0x20 (PrepareCodeConfig None)"

section \<open>Facts about the conversions and the writer\<close>

text \<open>
  The recursive conversions are evaluated through conditional equations, so that they
  unfold on numerals only.
\<close>

lemma replicate_pos: "0 < n \<Longrightarrow> replicate n c = c # replicate (n - 1) c"
  by (cases n) simp_all

lemma hex_of_nat_digit: "n < 16 \<Longrightarrow> hex_of_nat n = [hex_digit n]"
  by (simp add: hex_of_nat.simps)

lemma hex_of_nat_more:
  "\<not> n < 16 \<Longrightarrow> hex_of_nat n = hex_of_nat (n div 16) @ [hex_digit (n mod 16)]"
  by (subst hex_of_nat.simps) simp

lemma dec_of_nat_digit: "n < 10 \<Longrightarrow> dec_of_nat n = [hex_digit n]"
  by (simp add: dec_of_nat.simps)

lemma dec_of_nat_more:
  "\<not> n < 10 \<Longrightarrow> dec_of_nat n = dec_of_nat (n div 10) @ [hex_digit (n mod 10)]"
  by (subst dec_of_nat.simps) simp

lemmas fmt_defs =
  FMT_CODE_ADDR_def fmt_x_def fmt_08x_def fmt_d_def fmt_s_def hex_of_nat_digit hex_of_nat_more
  dec_of_nat_digit dec_of_nat_more hex_digit_def replicate_pos

lemmas sample_defs =
  host_live_def host_offline_def live_statics_def live_map_def
  sample_method_def sample_assembly_def sample_regions_def statics_init_def
  PerfMap_default_def Initialize_def PerfMap_pid_def OpenFile_def PerfInfo_new_def

lemma unat_ucast_64_32: "unat (ucast (w :: 64 word) :: 32 word) = unat w mod 2 ^ 32"
  by (simp add: unsigned_ucast_eq take_bit_eq_mod)

lemma live_map_eq:
  "live_map =
     \<lparr>m_FileStream = Some \<lparr>fs_path = ''/tmp/perf-42.map'', fs_contents = [], fs_accepts = []\<rparr>,
      m_PerfInfo = Some \<lparr>pi_pid = 42, pi_images = []\<rparr>,
      m_ErrorEncountered = False, m_StubsMapped = 0\<rparr>"
  by (simp add: sample_defs fmt_defs Let_def)

lemma live_statics_eq:
  "live_statics = \<lparr>s_Current = Some live_map, s_ShowOptimizationTiers = True\<rparr>"
  by (simp add: live_statics_def live_map_def Initialize_def host_live_def statics_init_def)

section \<open>The line format\<close>

text \<open>
  C5. A method that is logged (the stream is open, no error is latched, the signature
  resolves) hands \<^verbatim>\<open>WriteLine\<close> exactly the line
  \<^verbatim>\<open><address> <size-in-hex> <label>[<tier>]\n\<close> when a tier string is supplied and
  \<open>s_ShowOptimizationTiers\<close> is set, and exactly \<^verbatim>\<open><address> <size-in-hex> <label>\n\<close>
  when the tier string is null or tier display is off.
\<close>

theorem LogMethod_line_format:
  assumes "m_FileStream this \<noteq> None" and "\<not> m_ErrorEncountered this"
    and "GetFullMethodInfo pMethod = Some label"
  shows "LogMethod h g this pMethod pCode codeSize optimizationTier =
     WriteLine this
       (case optimizationTier of
          Some tier \<Rightarrow>
            if s_ShowOptimizationTiers g
            then FMT_CODE_ADDR h pCode @ '' '' @ fmt_x (ucast codeSize) @ '' '' @ label
                   @ ''['' @ tier @ '']'' @ [newline]
            else FMT_CODE_ADDR h pCode @ '' '' @ fmt_x (ucast codeSize) @ '' '' @ label
                   @ [newline]
        | None \<Rightarrow>
            FMT_CODE_ADDR h pCode @ '' '' @ fmt_x (ucast codeSize) @ '' '' @ label @ [newline])"
  using assms by (auto simp add: LogMethod_def Let_def split: option.splits)

theorem LogMethod_line_format_witness:
  "m_FileStream live_map \<noteq> None \<and> \<not> m_ErrorEncountered live_map
   \<and> GetFullMethodInfo sample_method = Some ''M.F()''
   \<and> m_FileStream (LogMethod host_live live_statics live_map sample_method 0x1000 0x20
         (Some ''Tier1'')) =
       Some \<lparr>fs_path = ''/tmp/perf-42.map'', fs_contents = ''1000 20 M.F()[Tier1]'' @ [newline],
             fs_accepts = []\<rparr>
   \<and> m_FileStream (LogMethod host_live live_statics live_map sample_method 0x1000 0x20 None) =
       Some \<lparr>fs_path = ''/tmp/perf-42.map'', fs_contents = ''1000 20 M.F()'' @ [newline],
             fs_accepts = []\<rparr>"
proof -
  have open_ok: "m_FileStream live_map \<noteq> None"
    by (simp add: live_map_eq)
  have no_error: "\<not> m_ErrorEncountered live_map"
    by (simp add: live_map_eq)
  have label: "GetFullMethodInfo sample_method = Some ''M.F()''"
    by (simp add: sample_method_def)
  have addr: "FMT_CODE_ADDR host_live 0x1000 = ''1000''"
    by (simp add: host_live_def fmt_defs)
  have size: "fmt_x 0x20 = ''20''"
    by (simp add: fmt_defs)
  have shown: "s_ShowOptimizationTiers live_statics"
    by (simp add: live_statics_eq)
  note fmt = LogMethod_line_format [OF open_ok no_error label,
      where h = host_live and g = live_statics and pCode = "0x1000" and codeSize = "0x20"]
  have tiered: "LogMethod host_live live_statics live_map sample_method 0x1000 0x20 (Some ''Tier1'')
      = WriteLine live_map (''1000 20 M.F()[Tier1]'' @ [newline])"
    using fmt [where optimizationTier = "Some ''Tier1''"] by (simp add: addr size shown)
  have plain: "LogMethod host_live live_statics live_map sample_method 0x1000 0x20 None
      = WriteLine live_map (''1000 20 M.F()'' @ [newline])"
    using fmt [where optimizationTier = None] by (simp add: addr size)
  show ?thesis
    unfolding tiered plain using open_ok no_error label
    by (simp add: live_map_eq WriteLine_def CFileStream_Write_def)
qed

section \<open>Logging without a singleton\<close>

text \<open>
  C9. While \<open>s_Current\<close> is null (before \<^verbatim>\<open>Initialize\<close>, or after \<^verbatim>\<open>Destroy\<close>, which
  always leaves it null) each of the three static entry points returns the state it was
  given: nothing is written and nothing changes. The entry points are total functions
  into the state, so there is no error for them to hand to the caller.
\<close>

theorem logging_without_singleton:
  "(s_Current g = None \<longrightarrow>
      LogJITCompiledMethod h g pMethod pCode codeSize pConfig = g
      \<and> LogStubs h g stubType stubOwner pCode codeSize = g
      \<and> LogImageLoad h g pFile = g)
   \<and> s_Current (Destroy g) = None
   \<and> LogJITCompiledMethod h (Destroy g) pMethod pCode codeSize pConfig = Destroy g
   \<and> LogStubs h (Destroy g) stubType stubOwner pCode codeSize = Destroy g
   \<and> LogImageLoad h (Destroy g) pFile = Destroy g"
  by (simp add: LogJITCompiledMethod_def LogStubs_def LogImageLoad_def Destroy_def
      split: option.splits)

theorem logging_without_singleton_witness:
  "s_Current statics_init = None
   \<and> LogJITCompiledMethod host_live statics_init sample_method 0x1000 0x20
       (PrepareCodeConfig (Some ''Tier1'')) = statics_init
   \<and> LogStubs host_live statics_init (Some ''DelegateStub'') (Some ''MyClass'') 0x1000 0x20
       = statics_init
   \<and> LogImageLoad host_live statics_init (PEFile 0x1234) = statics_init
   \<and> Destroy live_statics = \<lparr>s_Current = None, s_ShowOptimizationTiers = True\<rparr>
   \<and> LogStubs host_live (Destroy live_statics) (Some ''DelegateStub'') (Some ''MyClass'')
       0x1000 0x20 = Destroy live_statics"
proof -
  have absent: "s_Current statics_init = None"
    by (simp add: statics_init_def)
  have destroyed: "Destroy live_statics = \<lparr>s_Current = None, s_ShowOptimizationTiers = True\<rparr>"
    by (simp add: live_statics_eq Destroy_def)
  show ?thesis
    using absent destroyed
      logging_without_singleton [of statics_init host_live sample_method "0x1000" "0x20"
        "PrepareCodeConfig (Some ''Tier1'')" "Some ''DelegateStub''" "Some ''MyClass''"
        "PEFile 0x1234"]
      logging_without_singleton [of live_statics host_live sample_method "0x1000" "0x20"
        "PrepareCodeConfig (Some ''Tier1'')" "Some ''DelegateStub''" "Some ''MyClass''"
        "PEFile 0x1234"]
    by simp
qed

section \<open>Maps that take every write\<close>

lemma writable_appended [simp]: "writable this \<Longrightarrow> writable (appended this text)"
  by (auto simp add: writable_def appended_def split: option.splits)

lemma appended_appended [simp]: "appended (appended this a) b = appended this (a @ b)"
  by (auto simp add: appended_def split: option.splits)

lemma appended_Nil [simp]: "appended this [] = this"
  by (auto simp add: appended_def split: option.splits)

lemma writableI:
  "m_FileStream this = Some fs \<Longrightarrow> fs_accepts fs = [] \<Longrightarrow> \<not> m_ErrorEncountered this \<Longrightarrow>
   writable this"
  by (simp add: writable_def)

lemma appended_open:
  "m_FileStream this = Some fs \<Longrightarrow>
   appended this text = this\<lparr>m_FileStream := Some (fs\<lparr>fs_contents := fs_contents fs @ text\<rparr>)\<rparr>"
  by (simp add: appended_def)

lemma WriteLine_writable: "writable this \<Longrightarrow> WriteLine this line = appended this line"
  by (auto simp add: writable_def appended_def WriteLine_def CFileStream_Write_def Let_def
      split: option.splits)

lemma LogMethod_writable:
  "writable this \<Longrightarrow>
   LogMethod h g this pMethod pCode codeSize tier =
     (case GetFullMethodInfo pMethod of
        None \<Rightarrow> this
      | Some label \<Rightarrow> appended this (map_record h pCode codeSize label (shown_tier g tier)))"
  by (cases tier)
     (auto simp add: LogMethod_def Let_def map_record_def shown_tier_def WriteLine_writable
        writable_def split: option.splits)

lemma LogPreCompiledMethod_writable:
  "writable this \<Longrightarrow>
   LogPreCompiledMethod h g this pMethod pCode baseAddr tier =
     appended this (concat (method_records h baseAddr (shown_tier g tier) (pMethod, pCode)))"
  by (cases "GetFullMethodInfo pMethod")
     (simp_all add: LogPreCompiledMethod_def Let_def method_records_def method_regions_def
        LogMethod_writable)

lemma LogDataForModule_loop_writable:
  "writable this \<Longrightarrow>
   LogDataForModule_loop h g baseAddr tier mi this =
     appended this (concat (concat (map (method_records h baseAddr (shown_tier g tier)) mi)))"
proof (induction mi arbitrary: this)
  case Nil
  then show ?case by simp
next
  case (Cons m mi)
  obtain hotDesc addr where m: "m = (hotDesc, addr)"
    by (cases m)
  show ?case
    using Cons.prems
    by (simp add: m LogPreCompiledMethod_writable Cons.IH)
qed

lemma offline_map_eq:
  "offline_map =
     \<lparr>m_FileStream =
        Some \<lparr>fs_path = ''/out/mscorlib.ni.{1234}.map'', fs_contents = [], fs_accepts = []\<rparr>,
      m_PerfInfo = None, m_ErrorEncountered = False, m_StubsMapped = 0\<rparr>"
  by (simp add: offline_map_def NativeImagePerfMap_def GetNativeImageSignature_def sample_defs
      fmt_defs Let_def)

section \<open>Offline maps: one record per non-empty region\<close>

text \<open>
  C3. On a map whose stream is open, error-free and takes every write in full,
  \<^verbatim>\<open>LogDataForModule\<close> appends, for each method its iterator yields and in that order,
  the records of the method: one per non-empty region, the hot one first, each with the
  region's start address minus the module's load base as its address. The regions of a
  method are two when both sizes are positive, one when exactly one is, and none when
  both are zero.
\<close>

theorem LogDataForModule_regions:
  assumes "m_FileStream this = Some fs" and "fs_accepts fs = []"
    and "\<not> m_ErrorEncountered this"
  shows "LogDataForModule h g this pModule =
     this\<lparr>m_FileStream := Some (fs\<lparr>fs_contents := fs_contents fs @
       (if FEATURE_PREJIT h \<and> \<not> HasReadyToRunHeader pModule
        then concat (concat (map (method_records h (GetBase pModule) None)
               (MethodIterator pModule)))
        else concat (concat (map (method_records h (GetBase pModule)
               (if s_ShowOptimizationTiers g then Some ''ReadyToRun'' else None))
               (ReadyToRunInfo_MethodIterator pModule))))\<rparr>)\<rparr>
   \<and> method_regions h pCode =
       (if hotSize (GetMethodRegionInfo h pCode) > 0 \<and> coldSize (GetMethodRegionInfo h pCode) > 0
        then [(hotStartAddress (GetMethodRegionInfo h pCode), hotSize (GetMethodRegionInfo h pCode)),
              (coldStartAddress (GetMethodRegionInfo h pCode), coldSize (GetMethodRegionInfo h pCode))]
        else if hotSize (GetMethodRegionInfo h pCode) > 0
        then [(hotStartAddress (GetMethodRegionInfo h pCode), hotSize (GetMethodRegionInfo h pCode))]
        else if coldSize (GetMethodRegionInfo h pCode) > 0
        then [(coldStartAddress (GetMethodRegionInfo h pCode), coldSize (GetMethodRegionInfo h pCode))]
        else [])"
proof -
  have w: "writable this"
    using assms by (rule writableI)
  have "LogDataForModule h g this pModule =
      appended this
       (if FEATURE_PREJIT h \<and> \<not> HasReadyToRunHeader pModule
        then concat (concat (map (method_records h (GetBase pModule) None)
               (MethodIterator pModule)))
        else concat (concat (map (method_records h (GetBase pModule)
               (if s_ShowOptimizationTiers g then Some ''ReadyToRun'' else None))
               (ReadyToRunInfo_MethodIterator pModule))))"
    by (simp add: LogDataForModule_def Let_def LogDataForModule_loop_writable [OF w]
        shown_tier_def)
  moreover have "method_regions h pCode =
       (if hotSize (GetMethodRegionInfo h pCode) > 0 \<and> coldSize (GetMethodRegionInfo h pCode) > 0
        then [(hotStartAddress (GetMethodRegionInfo h pCode), hotSize (GetMethodRegionInfo h pCode)),
              (coldStartAddress (GetMethodRegionInfo h pCode), coldSize (GetMethodRegionInfo h pCode))]
        else if hotSize (GetMethodRegionInfo h pCode) > 0
        then [(hotStartAddress (GetMethodRegionInfo h pCode), hotSize (GetMethodRegionInfo h pCode))]
        else if coldSize (GetMethodRegionInfo h pCode) > 0
        then [(coldStartAddress (GetMethodRegionInfo h pCode), coldSize (GetMethodRegionInfo h pCode))]
        else [])"
    by (simp add: method_regions_def Let_def)
  ultimately show ?thesis
    by (simp add: appended_open [OF assms(1)])
qed

lemma ngen_records:
  "concat (concat (map (method_records host_offline 0x400000 None)
      [(MethodDesc (Some ''M.F()''), 0x401000), (MethodDesc (Some ''M.G()''), 0x401100),
       (MethodDesc (Some ''M.H()''), 0x401200)])) =
   ''00001000 20 M.F()'' @ [newline] @ ''00002000 8 M.F()'' @ [newline]
     @ ''00001100 30 M.G()'' @ [newline]"
  by (simp add: method_records_def method_regions_def map_record_def host_offline_def
      host_live_def sample_regions_def fmt_defs Let_def)

theorem LogDataForModule_regions_witness:
  "m_FileStream offline_map =
     Some \<lparr>fs_path = ''/out/mscorlib.ni.{1234}.map'', fs_contents = [], fs_accepts = []\<rparr>
   \<and> \<not> m_ErrorEncountered offline_map
   \<and> m_FileStream (LogDataForModule host_offline statics_init offline_map ngen_module) =
       Some \<lparr>fs_path = ''/out/mscorlib.ni.{1234}.map'',
             fs_contents = ''00001000 20 M.F()'' @ [newline] @ ''00002000 8 M.F()'' @ [newline]
               @ ''00001100 30 M.G()'' @ [newline],
             fs_accepts = []\<rparr>
   \<and> method_regions host_offline 0x401000 = [(0x401000, 0x20), (0x402000, 0x8)]
   \<and> method_regions host_offline 0x401100 = [(0x401100, 0x30)]
   \<and> method_regions host_offline 0x401200 = []"
proof -
  have open_ok: "m_FileStream offline_map =
      Some \<lparr>fs_path = ''/out/mscorlib.ni.{1234}.map'', fs_contents = [], fs_accepts = []\<rparr>"
    by (simp add: offline_map_eq)
  have no_error: "\<not> m_ErrorEncountered offline_map"
    by (simp add: offline_map_eq)
  have legacy: "FEATURE_PREJIT host_offline \<and> \<not> HasReadyToRunHeader ngen_module"
    by (simp add: host_offline_def host_live_def ngen_module_def)
  note regions = LogDataForModule_regions [OF open_ok _ no_error,
      where h = host_offline and g = statics_init and pModule = ngen_module]
  have run: "m_FileStream (LogDataForModule host_offline statics_init offline_map ngen_module) =
       Some \<lparr>fs_path = ''/out/mscorlib.ni.{1234}.map'',
             fs_contents = ''00001000 20 M.F()'' @ [newline] @ ''00002000 8 M.F()'' @ [newline]
               @ ''00001100 30 M.G()'' @ [newline],
             fs_accepts = []\<rparr>"
    using regions [where pCode = "0x401000"] legacy ngen_records
    by (simp add: ngen_module_def)
  have regs: "GetMethodRegionInfo host_offline = sample_regions"
    by (simp add: host_offline_def host_live_def)
  show ?thesis
    using open_ok no_error run regions [where pCode = "0x401000"] regions [where pCode = "0x401100"]
      regions [where pCode = "0x401200"]
    by (simp add: regs sample_regions_def)
qed

section \<open>Offline maps: the ReadyToRun marker\<close>

text \<open>
  C6 (amended). For a module whose image has a ReadyToRun header, \<^verbatim>\<open>LogDataForModule\<close>
  walks the ReadyToRun method iterator and hands every \<^verbatim>\<open>LogMethod\<close> call the fixed
  string \<^verbatim>\<open>"ReadyToRun"\<close>. On a map that takes every write, each record ends in
  \<^verbatim>\<open>[ReadyToRun]\<close> when \<open>s_ShowOptimizationTiers\<close> is set, and carries no tag when it is
  not.
\<close>

theorem ReadyToRun_records_tagged_when_tiers_shown:
  assumes "m_FileStream this = Some fs" and "fs_accepts fs = []"
    and "\<not> m_ErrorEncountered this"
    and "HasReadyToRunHeader pModule"
  shows "LogDataForModule h g this pModule =
     this\<lparr>m_FileStream := Some (fs\<lparr>fs_contents := fs_contents fs @
       concat (concat (map (method_records h (GetBase pModule)
          (if s_ShowOptimizationTiers g then Some ''ReadyToRun'' else None))
          (ReadyToRunInfo_MethodIterator pModule)))\<rparr>)\<rparr>
   \<and> map_record h address sz label (Some ''ReadyToRun'') =
       FMT_CODE_ADDR h address @ '' '' @ fmt_x (ucast sz) @ '' '' @ label @ ''[ReadyToRun]''
         @ [newline]
   \<and> map_record h address sz label None =
       FMT_CODE_ADDR h address @ '' '' @ fmt_x (ucast sz) @ '' '' @ label @ [newline]"
proof -
  have w: "writable this"
    using assms(1-3) by (rule writableI)
  have "LogDataForModule h g this pModule =
      appended this
       (concat (concat (map (method_records h (GetBase pModule)
          (if s_ShowOptimizationTiers g then Some ''ReadyToRun'' else None))
          (ReadyToRunInfo_MethodIterator pModule))))"
    using assms(4)
    by (simp add: LogDataForModule_def Let_def LogDataForModule_loop_writable [OF w]
        shown_tier_def)
  then show ?thesis
    by (simp add: appended_open [OF assms(1)] map_record_def)
qed

lemma r2r_records_tagged:
  "concat (concat (map (method_records host_offline 0x400000 (Some ''ReadyToRun''))
      [(MethodDesc (Some ''M.F()''), 0x401000), (MethodDesc (Some ''M.G()''), 0x401100)])) =
   ''00001000 20 M.F()[ReadyToRun]'' @ [newline] @ ''00002000 8 M.F()[ReadyToRun]'' @ [newline]
     @ ''00001100 30 M.G()[ReadyToRun]'' @ [newline]"
  by (simp add: method_records_def method_regions_def map_record_def host_offline_def
      host_live_def sample_regions_def fmt_defs Let_def)

theorem ReadyToRun_records_tagged_when_tiers_shown_witness:
  "m_FileStream offline_map =
     Some \<lparr>fs_path = ''/out/mscorlib.ni.{1234}.map'', fs_contents = [], fs_accepts = []\<rparr>
   \<and> \<not> m_ErrorEncountered offline_map
   \<and> HasReadyToRunHeader r2r_module
   \<and> s_ShowOptimizationTiers tiers_on
   \<and> m_FileStream (LogDataForModule host_offline tiers_on offline_map r2r_module) =
       Some \<lparr>fs_path = ''/out/mscorlib.ni.{1234}.map'',
             fs_contents = ''00001000 20 M.F()[ReadyToRun]'' @ [newline]
               @ ''00002000 8 M.F()[ReadyToRun]'' @ [newline]
               @ ''00001100 30 M.G()[ReadyToRun]'' @ [newline],
             fs_accepts = []\<rparr>"
proof -
  have open_ok: "m_FileStream offline_map =
      Some \<lparr>fs_path = ''/out/mscorlib.ni.{1234}.map'', fs_contents = [], fs_accepts = []\<rparr>"
    by (simp add: offline_map_eq)
  have no_error: "\<not> m_ErrorEncountered offline_map"
    by (simp add: offline_map_eq)
  have r2r: "HasReadyToRunHeader r2r_module"
    by (simp add: r2r_module_def)
  have shown: "s_ShowOptimizationTiers tiers_on"
    by (simp add: tiers_on_def)
  have "m_FileStream (LogDataForModule host_offline tiers_on offline_map r2r_module) =
       Some \<lparr>fs_path = ''/out/mscorlib.ni.{1234}.map'',
             fs_contents = ''00001000 20 M.F()[ReadyToRun]'' @ [newline]
               @ ''00002000 8 M.F()[ReadyToRun]'' @ [newline]
               @ ''00001100 30 M.G()[ReadyToRun]'' @ [newline],
             fs_accepts = []\<rparr>"
    using ReadyToRun_records_tagged_when_tiers_shown [OF open_ok _ no_error r2r,
        where h = host_offline and g = tiers_on] shown r2r_records_tagged
    by (simp add: r2r_module_def)
  then show ?thesis
    using open_ok no_error r2r shown by simp
qed

text \<open>
  With \<open>s_ShowOptimizationTiers\<close> at its initial value \<open>False\<close>, the records of a
  ReadyToRun module carry no marker.
\<close>

theorem ReadyToRun_records_untagged_counterexample:
  "HasReadyToRunHeader r2r_module
   \<and> fs_contents (the (m_FileStream
        (LogDataForModule host_offline statics_init offline_map r2r_module))) =
      ''00001000 20 M.F()'' @ [newline] @ ''00002000 8 M.F()'' @ [newline]
        @ ''00001100 30 M.G()'' @ [newline]
   \<and> fs_contents (the (m_FileStream
        (LogDataForModule host_offline statics_init offline_map r2r_module))) \<noteq>
      ''00001000 20 M.F()[ReadyToRun]'' @ [newline] @ ''00002000 8 M.F()[ReadyToRun]''
        @ [newline] @ ''00001100 30 M.G()[ReadyToRun]'' @ [newline]"
proof -
  have w: "writable offline_map"
    by (simp add: writable_def offline_map_eq)
  have off: "shown_tier statics_init (Some ''ReadyToRun'') = None"
    by (simp add: shown_tier_def statics_init_def)
  have records: "concat (concat (map (method_records host_offline 0x400000 None)
      [(MethodDesc (Some ''M.F()''), 0x401000), (MethodDesc (Some ''M.G()''), 0x401100)])) =
     ''00001000 20 M.F()'' @ [newline] @ ''00002000 8 M.F()'' @ [newline]
       @ ''00001100 30 M.G()'' @ [newline]"
    by (simp add: method_records_def method_regions_def map_record_def host_offline_def
        host_live_def sample_regions_def fmt_defs Let_def)
  have run: "LogDataForModule host_offline statics_init offline_map r2r_module =
     appended offline_map
       (''00001000 20 M.F()'' @ [newline] @ ''00002000 8 M.F()'' @ [newline]
          @ ''00001100 30 M.G()'' @ [newline])"
    using records
    by (simp add: LogDataForModule_def r2r_module_def Let_def
        LogDataForModule_loop_writable [OF w] off)
  show ?thesis
    unfolding run by (simp add: r2r_module_def appended_def offline_map_eq)
qed

section \<open>The size field\<close>

text \<open>
  C10. In every record, of a method and of a stub, the field after the address is the
  hexadecimal text of the code size reduced modulo \<open>2 ^ 32\<close>: the pointer-sized size is
  handed to the 32-bit conversion \<^verbatim>\<open>%x\<close>. For a method the record is the one
  \<^verbatim>\<open>LogMethod\<close> writes when its guards pass and the signature resolves; for a stub it is
  the one \<^verbatim>\<open>LogStubs\<close> writes when the singleton exists and its stream is open.
\<close>

theorem size_field_is_size_mod_2_32:
  assumes "m_FileStream this \<noteq> None"
  shows "(\<not> m_ErrorEncountered this \<and> GetFullMethodInfo pMethod = Some label \<longrightarrow>
           (\<exists>rest. LogMethod h g this pMethod pCode codeSize optimizationTier =
              WriteLine this
                (FMT_CODE_ADDR h pCode @ '' '' @ hex_of_nat (unat codeSize mod 2 ^ 32) @ '' ''
                   @ rest)))
       \<and> (s_Current g = Some this \<longrightarrow>
           (\<exists>rest. LogStubs h g stubType stubOwner pCode codeSize =
              g\<lparr>s_Current := Some (WriteLine (this\<lparr>m_StubsMapped := m_StubsMapped this + 1\<rparr>)
                (FMT_CODE_ADDR h pCode @ '' '' @ hex_of_nat (unat codeSize mod 2 ^ 32) @ '' ''
                   @ rest))\<rparr>))"
proof (intro conjI impI)
  assume "\<not> m_ErrorEncountered this \<and> GetFullMethodInfo pMethod = Some label"
  then show "\<exists>rest. LogMethod h g this pMethod pCode codeSize optimizationTier =
      WriteLine this
        (FMT_CODE_ADDR h pCode @ '' '' @ hex_of_nat (unat codeSize mod 2 ^ 32) @ '' '' @ rest)"
    using assms
    by (cases optimizationTier; cases "s_ShowOptimizationTiers g")
       (auto simp add: LogMethod_def Let_def fmt_x_def unat_ucast_64_32)
next
  assume "s_Current g = Some this"
  then show "\<exists>rest. LogStubs h g stubType stubOwner pCode codeSize =
      g\<lparr>s_Current := Some (WriteLine (this\<lparr>m_StubsMapped := m_StubsMapped this + 1\<rparr>)
        (FMT_CODE_ADDR h pCode @ '' '' @ hex_of_nat (unat codeSize mod 2 ^ 32) @ '' '' @ rest))\<rparr>"
    using assms
    by (auto simp add: LogStubs_def Let_def fmt_x_def unat_ucast_64_32)
qed

theorem size_field_is_size_mod_2_32_witness:
  "m_FileStream live_map \<noteq> None \<and> \<not> m_ErrorEncountered live_map
   \<and> GetFullMethodInfo sample_method = Some ''M.F()''
   \<and> s_Current live_statics = Some live_map
   \<and> take 8 (fs_contents (the (m_FileStream
        (LogMethod host_live live_statics live_map sample_method 0x1000 0x100000020 None)))) =
      ''1000 20 ''
   \<and> take 8 (fs_contents (the (m_FileStream (the (s_Current
        (LogStubs host_live live_statics (Some ''DelegateStub'') (Some ''MyClass'')
           0x1000 0x100000020)))))) =
      ''1000 20 ''"
proof -
  have open_ok: "m_FileStream live_map \<noteq> None"
    by (simp add: live_map_eq)
  have no_error: "\<not> m_ErrorEncountered live_map"
    by (simp add: live_map_eq)
  have label: "GetFullMethodInfo sample_method = Some ''M.F()''"
    by (simp add: sample_method_def)
  have cur: "s_Current live_statics = Some live_map"
    by (simp add: live_statics_eq)
  have prefix: "FMT_CODE_ADDR host_live 0x1000 @ '' ''
      @ hex_of_nat (unat (0x100000020 :: 64 word) mod 2 ^ 32) @ '' '' @ rest = ''1000 20 '' @ rest"
    for rest
    by (simp add: host_live_def fmt_defs)
  note sizes = size_field_is_size_mod_2_32 [OF open_ok, where h = host_live
      and g = live_statics and pCode = "0x1000" and codeSize = "0x100000020"]
  obtain rest1 where logged:
    "LogMethod host_live live_statics live_map sample_method 0x1000 0x100000020 None =
       WriteLine live_map (''1000 20 '' @ rest1)"
    using sizes [where pMethod = sample_method and label = "''M.F()''"
        and optimizationTier = None] no_error label
    unfolding prefix by blast
  obtain rest2 where stubbed:
    "LogStubs host_live live_statics (Some ''DelegateStub'') (Some ''MyClass'') 0x1000
        0x100000020 =
       live_statics\<lparr>s_Current := Some (WriteLine
         (live_map\<lparr>m_StubsMapped := m_StubsMapped live_map + 1\<rparr>) (''1000 20 '' @ rest2))\<rparr>"
    using sizes [where stubType = "Some ''DelegateStub''" and stubOwner = "Some ''MyClass''"] cur
    unfolding prefix by blast
  show ?thesis
    unfolding logged stubbed using open_ok no_error label cur
    by (simp add: live_map_eq WriteLine_def CFileStream_Write_def)
qed

section \<open>The path of an offline map\<close>

text \<open>
  C8. The constructor of an offline map opens the file
  \<^verbatim>\<open><destination><simple name>.ni.<signature>.map\<close>. Two instances built for assemblies
  with the same simple name and the same image signature, into the same destination, open
  the same path.
\<close>

theorem NativeImagePerfMap_path:
  assumes "GetSimpleName a1 = GetSimpleName a2"
    and "GetNativeImageSignature h1 (GetManifestFile a1) =
         GetNativeImageSignature h2 (GetManifestFile a2)"
    and "m_FileStream (NativeImagePerfMap h1 a1 dest) = Some fs1"
    and "m_FileStream (NativeImagePerfMap h2 a2 dest) = Some fs2"
  shows "fs_path fs1 = fs_path fs2
     \<and> fs_path fs1 = dest @ GetSimpleName a1 @ ''.ni.''
          @ GetNativeImageSignature h1 (GetManifestFile a1) @ ''.map''
     \<and> NativeImagePerfMap h1 a1 dest =
         OpenFile h1 PerfMap_default
           (dest @ GetSimpleName a1 @ ''.ni.''
              @ GetNativeImageSignature h1 (GetManifestFile a1) @ ''.map'')"
  using assms
  by (auto simp add: NativeImagePerfMap_def OpenFile_def Let_def
      split: if_splits option.splits)

theorem NativeImagePerfMap_path_witness:
  "GetNativeImageSignature host_offline (GetManifestFile sample_assembly) = ''{1234}''
   \<and> GetNativeImageSignature host_live (GetManifestFile sample_assembly) = ''{1234}''
   \<and> fs_path (the (m_FileStream (NativeImagePerfMap host_offline sample_assembly ''/out/'')))
       = ''/out/mscorlib.ni.{1234}.map''
   \<and> fs_path (the (m_FileStream (NativeImagePerfMap host_live sample_assembly ''/out/'')))
       = ''/out/mscorlib.ni.{1234}.map''"
proof -
  have sig1: "GetNativeImageSignature host_offline (GetManifestFile sample_assembly) = ''{1234}''"
    by (simp add: GetNativeImageSignature_def sample_defs fmt_defs)
  have sig2: "GetNativeImageSignature host_live (GetManifestFile sample_assembly) = ''{1234}''"
    by (simp add: GetNativeImageSignature_def sample_defs fmt_defs)
  obtain fs1 where fs1: "m_FileStream (NativeImagePerfMap host_offline sample_assembly ''/out/'')
      = Some fs1"
    by (simp add: NativeImagePerfMap_def Let_def sample_defs)
  obtain fs2 where fs2: "m_FileStream (NativeImagePerfMap host_live sample_assembly ''/out/'')
      = Some fs2"
    by (simp add: NativeImagePerfMap_def Let_def sample_defs)
  have same: "GetNativeImageSignature host_offline (GetManifestFile sample_assembly) =
      GetNativeImageSignature host_live (GetManifestFile sample_assembly)"
    by (simp add: sig1 sig2)
  have both: "fs_path fs1 = fs_path fs2 \<and> fs_path fs1 = ''/out/mscorlib.ni.{1234}.map''"
    using NativeImagePerfMap_path [OF refl same fs1 fs2] unfolding sig1
    by (auto simp add: sample_assembly_def)
  have p1: "fs_path fs1 = ''/out/mscorlib.ni.{1234}.map''"
    using both by blast
  have p2: "fs_path fs2 = ''/out/mscorlib.ni.{1234}.map''"
    using both by metis
  show ?thesis
    by (simp add: sig1 sig2 fs1 fs2 p1 p2)
qed

section \<open>The stub counter\<close>

lemma sint_of_nat_32: "n < 2 ^ 31 \<Longrightarrow> sint (of_nat n :: 32 word) = int n"
proof -
  assume n: "n < 2 ^ 31"
  have "int n < 2 ^ 31"
    using n by (metis of_nat_less_iff of_nat_numeral of_nat_power)
  then show ?thesis
    by (simp add: signed_of_nat signed_take_bit_int_eq_self)
qed

lemma unat_of_nat_32: "n < 2 ^ 32 \<Longrightarrow> unat (of_nat n :: 32 word) = n"
  by (simp add: unat_of_nat)

lemma fmt_d_of_nat: "n < 2 ^ 31 \<Longrightarrow> fmt_d (of_nat n) = dec_of_nat n"
  by (simp add: fmt_d_def sint_of_nat_32)

lemma WriteLine_m_StubsMapped [simp]: "m_StubsMapped (WriteLine this line) = m_StubsMapped this"
  by (simp add: WriteLine_def Let_def split: option.splits prod.splits)

lemma WriteLine_keeps_stream:
  "m_FileStream this \<noteq> None \<Longrightarrow> m_FileStream (WriteLine this line) \<noteq> None"
  by (auto simp add: WriteLine_def Let_def split: option.splits prod.splits)

lemma LogStubs_guarded:
  "s_Current g = Some cur \<Longrightarrow> m_FileStream cur \<noteq> None \<Longrightarrow>
   LogStubs h g stubType stubOwner pCode codeSize =
     g\<lparr>s_Current := Some (WriteLine (cur\<lparr>m_StubsMapped := m_StubsMapped cur + 1\<rparr>)
       (FMT_CODE_ADDR h pCode @ '' '' @ fmt_x (ucast codeSize) @ '' stub<''
          @ fmt_d (m_StubsMapped cur + 1) @ ''> '' @ fmt_s h stubType @ ''<''
          @ fmt_s h (if stubType = None \<or> stubOwner = None then Some ''?'' else stubOwner)
          @ ''>'' @ [newline]))\<rparr>"
  by (auto simp add: LogStubs_def Let_def)

lemma LogStubs_calls_counter:
  "s_Current g = Some cur \<Longrightarrow> m_FileStream cur \<noteq> None \<Longrightarrow>
   \<exists>cur'. s_Current (LogStubs_calls h calls g) = Some cur' \<and> m_FileStream cur' \<noteq> None
     \<and> m_StubsMapped cur' = m_StubsMapped cur + of_nat (length calls)"
proof (induction calls arbitrary: g cur)
  case Nil
  then show ?case by (simp add: LogStubs_calls_def)
next
  case (Cons c calls)
  obtain stubType stubOwner pCode codeSize where c: "c = (stubType, stubOwner, pCode, codeSize)"
    by (cases c)
  let ?line = "FMT_CODE_ADDR h pCode @ '' '' @ fmt_x (ucast codeSize) @ '' stub<''
          @ fmt_d (m_StubsMapped cur + 1) @ ''> '' @ fmt_s h stubType @ ''<''
          @ fmt_s h (if stubType = None \<or> stubOwner = None then Some ''?'' else stubOwner)
          @ ''>'' @ [newline]"
  let ?cur1 = "WriteLine (cur\<lparr>m_StubsMapped := m_StubsMapped cur + 1\<rparr>) ?line"
  let ?g1 = "LogStubs h g stubType stubOwner pCode codeSize"
  have g1: "?g1 = g\<lparr>s_Current := Some ?cur1\<rparr>"
    using Cons.prems by (rule LogStubs_guarded)
  have cur1: "s_Current ?g1 = Some ?cur1"
    by (simp add: g1)
  have open1: "m_FileStream ?cur1 \<noteq> None"
    using Cons.prems(2) by (intro WriteLine_keeps_stream) simp
  have count1: "m_StubsMapped ?cur1 = m_StubsMapped cur + 1"
    by simp
  have unfold: "LogStubs_calls h (c # calls) g = LogStubs_calls h calls ?g1"
    by (simp add: LogStubs_calls_def c)
  show ?case
    using Cons.IH [OF cur1 open1] unfolding unfold count1 by (simp add: add.assoc)
qed

text \<open>
  C4 (amended). \<open>m_StubsMapped\<close> is a 32-bit counter that the constructor sets to zero;
  \<^verbatim>\<open>LogStubs\<close> pre-increments it and prints it with \<^verbatim>\<open>%d\<close>. In any run of guarded
  calls with fewer than \<open>2 ^ 32\<close> calls in all, each call is given the number of calls
  before it plus one, so the calls are numbered 1, 2, 3, ... in call order, and the line
  embeds that number as \<^verbatim>\<open>%d\<close> prints it: its decimal text while it is below \<open>2 ^ 31\<close>.
  The first call embeds 1.
\<close>

theorem stub_counter_numbers_calls:
  assumes "s_Current (Initialize h raw statics_init) = Some cur"
    and "m_FileStream cur \<noteq> None"
    and "Suc (length calls) < 2 ^ 32"
  shows "\<exists>curN. s_Current (LogStubs_calls h calls (Initialize h raw statics_init)) = Some curN
     \<and> m_FileStream curN \<noteq> None
     \<and> unat (m_StubsMapped curN) = length calls
     \<and> LogStubs h (LogStubs_calls h calls (Initialize h raw statics_init))
          stubType stubOwner pCode codeSize =
        (LogStubs_calls h calls (Initialize h raw statics_init))
          \<lparr>s_Current := Some (WriteLine (curN\<lparr>m_StubsMapped := of_nat (Suc (length calls))\<rparr>)
            (FMT_CODE_ADDR h pCode @ '' '' @ fmt_x (ucast codeSize) @ '' stub<''
               @ fmt_d (of_nat (Suc (length calls))) @ ''> '' @ fmt_s h stubType @ ''<''
               @ fmt_s h (if stubType = None \<or> stubOwner = None then Some ''?'' else stubOwner)
               @ ''>'' @ [newline]))\<rparr>
     \<and> unat (of_nat (Suc (length calls)) :: 32 word) = Suc (length calls)
     \<and> (Suc (length calls) < 2 ^ 31 \<longrightarrow>
          fmt_d (of_nat (Suc (length calls))) = dec_of_nat (Suc (length calls)))"
proof -
  have zero: "m_StubsMapped cur = 0"
    using assms(1)
    by (auto simp add: Initialize_def PerfMap_pid_def OpenFile_def statics_init_def Let_def
        split: if_splits option.splits)
  obtain curN where curN: "s_Current (LogStubs_calls h calls (Initialize h raw statics_init)) = Some curN"
      "m_FileStream curN \<noteq> None" "m_StubsMapped curN = of_nat (length calls)"
    using LogStubs_calls_counter [OF assms(1) assms(2), of h calls] by (auto simp add: zero)
  have len: "length calls < 2 ^ 32"
    using assms(3) by simp
  have next_value: "m_StubsMapped curN + 1 = of_nat (Suc (length calls))"
    by (simp add: curN(3))
  have count: "unat (m_StubsMapped curN) = length calls"
    unfolding curN(3) using len by (rule unat_of_nat_32)
  have next_count: "unat (of_nat (Suc (length calls)) :: 32 word) = Suc (length calls)"
    using assms(3) by (rule unat_of_nat_32)
  have printed: "Suc (length calls) < 2 ^ 31 \<longrightarrow>
      fmt_d (of_nat (Suc (length calls))) = dec_of_nat (Suc (length calls))"
    using fmt_d_of_nat by blast
  note call = LogStubs_guarded [OF curN(1) curN(2), of h stubType stubOwner pCode codeSize,
      unfolded next_value]
  show ?thesis
    using curN(1) curN(2) count call next_count printed by blast
qed

theorem stub_counter_numbers_calls_witness:
  "s_Current (Initialize host_live PerfMap_default statics_init) = Some live_map
   \<and> m_FileStream live_map \<noteq> None
   \<and> m_FileStream (the (s_Current
        (LogStubs host_live
           (LogStubs_calls host_live [delegate_stub]
              (Initialize host_live PerfMap_default statics_init))
           (Some ''DelegateStub'') (Some ''MyClass'') 0x2000 0x20))) =
      Some \<lparr>fs_path = ''/tmp/perf-42.map'',
            fs_contents = ''1000 20 stub<1> DelegateStub<MyClass>'' @ [newline]
              @ ''2000 20 stub<2> DelegateStub<MyClass>'' @ [newline],
            fs_accepts = []\<rparr>"
proof -
  have init: "s_Current (Initialize host_live PerfMap_default statics_init) = Some live_map"
    using live_statics_eq by (simp add: live_statics_def)
  have open_ok: "m_FileStream live_map \<noteq> None"
    by (simp add: live_map_eq)
  have first: "LogStubs_calls host_live [delegate_stub]
       (Initialize host_live PerfMap_default statics_init) =
     \<lparr>s_Current = Some
        \<lparr>m_FileStream = Some \<lparr>fs_path = ''/tmp/perf-42.map'',
           fs_contents = ''1000 20 stub<1> DelegateStub<MyClass>'' @ [newline],
           fs_accepts = []\<rparr>,
         m_PerfInfo = Some \<lparr>pi_pid = 42, pi_images = []\<rparr>,
         m_ErrorEncountered = False, m_StubsMapped = 1\<rparr>,
      s_ShowOptimizationTiers = True\<rparr>"
    unfolding live_statics_def [symmetric]
    by (simp add: LogStubs_calls_def delegate_stub_def LogStubs_def live_statics_eq live_map_eq
        WriteLine_def CFileStream_Write_def host_live_def fmt_defs Let_def)
  have few: "Suc (length [delegate_stub]) < 2 ^ 32"
    by simp
  have second: "FMT_CODE_ADDR host_live 0x2000 @ '' '' @ fmt_x (ucast (0x20 :: 64 word))
        @ '' stub<'' @ fmt_d (of_nat (Suc (length [delegate_stub]))) @ ''> ''
        @ fmt_s host_live (Some ''DelegateStub'') @ ''<''
        @ fmt_s host_live (if Some ''DelegateStub'' = None \<or> Some ''MyClass'' = None
            then Some ''?'' else Some ''MyClass'')
        @ ''>'' @ [newline] =
      ''2000 20 stub<2> DelegateStub<MyClass>'' @ [newline]"
    by (simp add: host_live_def fmt_defs)
  obtain curN where
    at: "s_Current (LogStubs_calls host_live [delegate_stub]
        (Initialize host_live PerfMap_default statics_init)) = Some curN"
    and call: "LogStubs host_live
        (LogStubs_calls host_live [delegate_stub]
           (Initialize host_live PerfMap_default statics_init))
        (Some ''DelegateStub'') (Some ''MyClass'') 0x2000 0x20 =
      (LogStubs_calls host_live [delegate_stub]
          (Initialize host_live PerfMap_default statics_init))
        \<lparr>s_Current := Some (WriteLine
           (curN\<lparr>m_StubsMapped := of_nat (Suc (length [delegate_stub]))\<rparr>)
           (''2000 20 stub<2> DelegateStub<MyClass>'' @ [newline]))\<rparr>"
    using stub_counter_numbers_calls [OF init open_ok few, where stubType = "Some ''DelegateStub''"
        and stubOwner = "Some ''MyClass''" and pCode = "0x2000" and codeSize = "0x20"]
    unfolding second by blast
  have curN: "curN =
      \<lparr>m_FileStream = Some \<lparr>fs_path = ''/tmp/perf-42.map'',
         fs_contents = ''1000 20 stub<1> DelegateStub<MyClass>'' @ [newline],
         fs_accepts = []\<rparr>,
       m_PerfInfo = Some \<lparr>pi_pid = 42, pi_images = []\<rparr>,
       m_ErrorEncountered = False, m_StubsMapped = 1\<rparr>"
    using at unfolding first by simp
  show ?thesis
    using init open_ok unfolding call unfolding first curN
    by (simp add: WriteLine_def CFileStream_Write_def)
qed

text \<open>
  Call number \<open>2 ^ 31\<close> embeds a negative number. The counter wraps at \<open>2 ^ 32\<close>: after
  \<open>2 ^ 32\<close> guarded calls it is zero again, and call number \<open>2 ^ 32 + 1\<close> is given 1
  and writes the line of a first call.
\<close>

theorem stub_counter_wraps_counterexample:
  "fmt_d (of_nat (2 ^ 31)) = ''-2147483648''
   \<and> m_StubsMapped (the (s_Current
      (LogStubs_calls host_live (replicate (2 ^ 32) delegate_stub) live_statics))) = 0
   \<and> LogStubs host_live
        (LogStubs_calls host_live (replicate (2 ^ 32) delegate_stub) live_statics)
        (Some ''DelegateStub'') (Some ''MyClass'') 0x1000 0x20 =
      (LogStubs_calls host_live (replicate (2 ^ 32) delegate_stub) live_statics)
        \<lparr>s_Current := Some (WriteLine
           ((the (s_Current
               (LogStubs_calls host_live (replicate (2 ^ 32) delegate_stub) live_statics)))
              \<lparr>m_StubsMapped := 1\<rparr>)
           (''1000 20 stub<1> DelegateStub<MyClass>'' @ [newline]))\<rparr>"
proof -
  define gN where "gN = LogStubs_calls host_live (replicate (2 ^ 32) delegate_stub) live_statics"
  have cur: "s_Current live_statics = Some live_map"
    by (simp add: live_statics_eq)
  have open_ok: "m_FileStream live_map \<noteq> None"
    by (simp add: live_map_eq)
  have zero: "m_StubsMapped live_map = 0"
    by (simp add: live_map_eq)
  have wrapped: "(of_nat (length (replicate (2 ^ 32) delegate_stub)) :: 32 word) = 0"
    by simp
  obtain curN where curN: "s_Current gN = Some curN" "m_FileStream curN \<noteq> None"
      "m_StubsMapped curN = 0"
    using LogStubs_calls_counter [OF cur open_ok, of host_live
        "replicate (2 ^ 32) delegate_stub"]
    unfolding wrapped zero gN_def by auto
  have line: "FMT_CODE_ADDR host_live 0x1000 @ '' '' @ fmt_x (ucast (0x20 :: 64 word))
        @ '' stub<'' @ fmt_d (0 + 1) @ ''> ''
        @ fmt_s host_live (Some ''DelegateStub'') @ ''<''
        @ fmt_s host_live (if Some ''DelegateStub'' = None \<or> Some ''MyClass'' = None
            then Some ''?'' else Some ''MyClass'')
        @ ''>'' @ [newline] =
      ''1000 20 stub<1> DelegateStub<MyClass>'' @ [newline]"
    by (simp add: host_live_def fmt_defs)
  have call: "LogStubs host_live gN (Some ''DelegateStub'') (Some ''MyClass'') 0x1000 0x20 =
      gN\<lparr>s_Current := Some (WriteLine (curN\<lparr>m_StubsMapped := 1\<rparr>)
        (''1000 20 stub<1> DelegateStub<MyClass>'' @ [newline]))\<rparr>"
    using LogStubs_guarded [OF curN(1) curN(2), of host_live "Some ''DelegateStub''"
      "Some ''MyClass''" "0x1000" "0x20"]
    unfolding curN(3) line by simp
  have negative: "fmt_d (of_nat (2 ^ 31)) = ''-2147483648''"
    by (simp add: fmt_defs)
  have "fmt_d (of_nat (2 ^ 31)) = ''-2147483648''
     \<and> m_StubsMapped (the (s_Current gN)) = 0
     \<and> LogStubs host_live gN (Some ''DelegateStub'') (Some ''MyClass'') 0x1000 0x20 =
        gN\<lparr>s_Current := Some (WriteLine ((the (s_Current gN))\<lparr>m_StubsMapped := 1\<rparr>)
          (''1000 20 stub<1> DelegateStub<MyClass>'' @ [newline]))\<rparr>"
    unfolding call using negative by (simp add: curN(1) curN(3))
  then show ?thesis
    unfolding gN_def .
qed

section \<open>After a short write\<close>

lemma after_short_write_eq:
  "after_short_write =
     \<lparr>s_Current = Some
        \<lparr>m_FileStream = Some \<lparr>fs_path = ''/tmp/perf-42.map'', fs_contents = ''1000 '',
           fs_accepts = []\<rparr>,
         m_PerfInfo = Some \<lparr>pi_pid = 42, pi_images = []\<rparr>,
         m_ErrorEncountered = True, m_StubsMapped = 0\<rparr>,
      s_ShowOptimizationTiers = True\<rparr>"
  by (simp add: after_short_write_def host_short_def sample_defs LogJITCompiledMethod_def
      LogMethod_def WriteLine_def CFileStream_Write_def fmt_defs Let_def)

text \<open>
  C1. The claim is that once a write has come up short, no later log call adds a byte to
  the file. Evaluated on a live map whose first write took five bytes of the line: the
  error flag is set and the stream stays open; \<^verbatim>\<open>LogJITCompiledMethod\<close> and
  \<^verbatim>\<open>LogImageLoad\<close> then leave the state as it is; \<^verbatim>\<open>LogStubs\<close>, which tests
  \<open>s_Current\<close> and \<open>m_FileStream\<close> but not \<open>m_ErrorEncountered\<close>, appends its whole
  line and advances the counter.
\<close>

theorem LogStubs_writes_after_short_write:
  "s_Current after_short_write =
     Some \<lparr>m_FileStream = Some \<lparr>fs_path = ''/tmp/perf-42.map'', fs_contents = ''1000 '',
              fs_accepts = []\<rparr>,
           m_PerfInfo = Some \<lparr>pi_pid = 42, pi_images = []\<rparr>,
           m_ErrorEncountered = True, m_StubsMapped = 0\<rparr>
   \<and> LogJITCompiledMethod host_short after_short_write sample_method 0x3000 0x40
       (PrepareCodeConfig None) = after_short_write
   \<and> LogImageLoad host_short after_short_write (PEFile 0x1234) = after_short_write
   \<and> s_Current (LogStubs host_short after_short_write (Some ''DelegateStub'')
        (Some ''MyClass'') 0x2000 0x10) =
     Some \<lparr>m_FileStream = Some \<lparr>fs_path = ''/tmp/perf-42.map'',
              fs_contents = ''1000 2000 10 stub<1> DelegateStub<MyClass>'' @ [newline],
              fs_accepts = []\<rparr>,
           m_PerfInfo = Some \<lparr>pi_pid = 42, pi_images = []\<rparr>,
           m_ErrorEncountered = True, m_StubsMapped = 1\<rparr>"
  unfolding after_short_write_eq
  by (simp add: LogJITCompiledMethod_def LogMethod_def LogImageLoad_def LogImage_def
      LogStubs_def WriteLine_def CFileStream_Write_def host_short_def host_live_def fmt_defs
      Let_def)

section \<open>Stubs with a null kind or owner\<close>

text \<open>
  C2. The claim is that a null stub kind and a null stub owner are each replaced by
  \<^verbatim>\<open>"?"\<close>. Evaluated on a live map: with a null kind and the owner \<^verbatim>\<open>"MyClass"\<close>, the
  second null test assigns \<open>stubOwner\<close> again, so the owner is printed as \<^verbatim>\<open>?\<close> and the
  kind reaches \<^verbatim>\<open>%s\<close> as a null pointer; with a kind and a null owner, the owner is
  printed as \<^verbatim>\<open>?\<close>.
\<close>

theorem LogStubs_null_stub_type:
  "s_Current (LogStubs host_live live_statics None (Some ''MyClass'') 0x1000 0x20) =
     Some \<lparr>m_FileStream = Some \<lparr>fs_path = ''/tmp/perf-42.map'',
              fs_contents = ''1000 20 stub<1> (null)<?>'' @ [newline], fs_accepts = []\<rparr>,
           m_PerfInfo = Some \<lparr>pi_pid = 42, pi_images = []\<rparr>,
           m_ErrorEncountered = False, m_StubsMapped = 1\<rparr>
   \<and> s_Current (LogStubs host_live live_statics (Some ''DelegateStub'') None 0x1000 0x20) =
     Some \<lparr>m_FileStream = Some \<lparr>fs_path = ''/tmp/perf-42.map'',
              fs_contents = ''1000 20 stub<1> DelegateStub<?>'' @ [newline], fs_accepts = []\<rparr>,
           m_PerfInfo = Some \<lparr>pi_pid = 42, pi_images = []\<rparr>,
           m_ErrorEncountered = False, m_StubsMapped = 1\<rparr>"
  unfolding live_statics_eq live_map_eq
  by (simp add: LogStubs_def WriteLine_def CFileStream_Write_def host_live_def fmt_defs Let_def)

section \<open>Construction when set-up fails\<close>

text \<open>
  C7. The claim is that a map whose set-up failed has no stream and ignores every log
  call. Evaluated where \<^verbatim>\<open>GetTempPathW\<close> fails: the constructor returns before it has
  assigned \<open>m_FileStream\<close> and \<open>m_PerfInfo\<close>, so the map holds what its storage held; on
  storage that held a stream pointer, the stream is not null and \<^verbatim>\<open>LogMethod\<close> writes
  through it. Where the file cannot be created, \<^verbatim>\<open>OpenFile\<close> does reset the stream.
\<close>

theorem PerfMap_pid_without_temp_path:
  "GetTempPathW host_no_temp = None
   \<and> PerfMap_pid host_no_temp stale_storage 42 =
       \<lparr>m_FileStream = Some \<lparr>fs_path = ''stale'', fs_contents = [], fs_accepts = []\<rparr>,
        m_PerfInfo = None, m_ErrorEncountered = False, m_StubsMapped = 0\<rparr>
   \<and> m_FileStream (LogMethod host_no_temp statics_init
         (PerfMap_pid host_no_temp stale_storage 42) sample_method 0x1000 0x20 None) =
       Some \<lparr>fs_path = ''stale'', fs_contents = ''1000 20 M.F()'' @ [newline],
             fs_accepts = []\<rparr>
   \<and> m_FileStream (PerfMap_pid (host_live\<lparr>OpenForWrite := (\<lambda>p. None)\<rparr>) stale_storage 42)
       = None"
  by (simp add: PerfMap_pid_def OpenFile_def host_no_temp_def host_live_def stale_storage_def
      LogMethod_def WriteLine_def CFileStream_Write_def sample_method_def statics_init_def
      fmt_defs Let_def)

end
